theory Spec2Isabelle
  imports Complex_Main
begin

section \<open>Data model of \<^verbatim>\<open>scripts/generate-video.js\<close>\<close>

text \<open>
  JavaScript numbers that carry times (seconds) are modelled as exact reals: the
  comparisons and subtractions of the source are read over \<open>real\<close>, and the rounding of
  IEEE doubles is not part of the model. A property that an object may lack
  (\<^verbatim>\<open>undefined\<close>) is an \<open>option\<close>. A count of words is a natural number.
\<close>

record word_rec =
  w_word :: string
  w_start :: real
  w_end :: real

text \<open>
  The objects pushed by \<^verbatim>\<open>buildChunks\<close> have \<^verbatim>\<open>words\<close>, \<^verbatim>\<open>start\<close>, \<^verbatim>\<open>end\<close>; the karaoke
  frames of \<^verbatim>\<open>main\<close> are spreads of them with \<^verbatim>\<open>activeStart\<close> and \<^verbatim>\<open>activeEnd\<close> added, so
  one record serves both and the two optional properties are \<open>None\<close> on a plain chunk.
\<close>

record chunk =
  c_words :: "word_rec list"
  c_start :: real
  c_end :: real
  activeStart :: "real option"
  activeEnd :: "real option"

text \<open>
  The style file is parsed JSON whose every field is optional. The nested lookup
  \<^verbatim>\<open>(style.text && style.text.maxChunkSize)\<close> is flattened to one optional field.
\<close>

record style =
  animation_pauseThreshold :: "real option"
  text_maxChunkSize :: "nat option"
  text_maxWordsPerLine :: "nat option"
  text_fontFamily :: "string option"
  text_fontWeight :: "string option"
  text_fontSize :: "real option"
  text_color :: "string option"
  text_strokeColor :: "string option"
  text_strokeWidth :: "real option"
  text_lineHeight :: "real option"
  text_positionY :: "real option"
  highlight_color :: "string option"
  highlight_strokeColor :: "string option"
  background_color :: "string option"
  video_width :: "real option"
  video_height :: "real option"
  video_fps :: "real option"

definition emptyStyle :: style where
  "emptyStyle = \<lparr>animation_pauseThreshold = None, text_maxChunkSize = None,
     text_maxWordsPerLine = None, text_fontFamily = None, text_fontWeight = None,
     text_fontSize = None, text_color = None, text_strokeColor = None,
     text_strokeWidth = None, text_lineHeight = None, text_positionY = None,
     highlight_color = None, highlight_strokeColor = None, background_color = None,
     video_width = None, video_height = None, video_fps = None\<rparr>"

text \<open>\<^verbatim>\<open>a || d\<close> on an optional number: \<^verbatim>\<open>undefined\<close> and \<^verbatim>\<open>0\<close> are falsy.\<close>

definition js_or :: "real option \<Rightarrow> real \<Rightarrow> real" where
  "js_or a d = (case a of None \<Rightarrow> d | Some v \<Rightarrow> if v = 0 then d else v)"

definition js_or_nat :: "nat option \<Rightarrow> nat \<Rightarrow> nat" where
  "js_or_nat a d = (case a of None \<Rightarrow> d | Some v \<Rightarrow> if v = 0 then d else v)"

text \<open>\<^verbatim>\<open>a || d\<close> on an optional string: \<^verbatim>\<open>undefined\<close>, \<^verbatim>\<open>null\<close> and the empty string are falsy.\<close>

definition js_or_str :: "string option \<Rightarrow> string \<Rightarrow> string" where
  "js_or_str a d = (case a of None \<Rightarrow> d | Some v \<Rightarrow> if v = [] then d else v)"

section \<open>Chunk grouping\<close>

definition pauseThreshold_of :: "style \<Rightarrow> real" where
  "pauseThreshold_of st = js_or (animation_pauseThreshold st) 0.3"

definition maxChunkSize_of :: "style \<Rightarrow> nat" where
  "maxChunkSize_of st = js_or_nat (text_maxChunkSize st) 4"

definition mk_chunk :: "word_rec list \<Rightarrow> real \<Rightarrow> real \<Rightarrow> chunk" where
  "mk_chunk ws s e = \<lparr>c_words = ws, c_start = s, c_end = e, activeStart = None, activeEnd = None\<rparr>"

text \<open>
  The \<^verbatim>\<open>for\<close> loop of \<^verbatim>\<open>buildChunks\<close>, with its two mutable variables \<^verbatim>\<open>chunks\<close> and
  \<^verbatim>\<open>current\<close> passed as state. \<^verbatim>\<open>current[0]\<close> and \<^verbatim>\<open>current[current.length - 1]\<close> are
  only read where \<^verbatim>\<open>current\<close> is not empty, so \<open>hd\<close> and \<open>last\<close> are defined there.
\<close>

fun chunk_loop :: "real \<Rightarrow> nat \<Rightarrow> word_rec list \<Rightarrow> chunk list \<Rightarrow> word_rec list
                    \<Rightarrow> chunk list \<times> word_rec list" where
  "chunk_loop pauseThreshold maxChunkSize [] chunks current = (chunks, current)"
| "chunk_loop pauseThreshold maxChunkSize (w # rest) chunks current =
     (if length current = 0 then
        chunk_loop pauseThreshold maxChunkSize rest chunks (current @ [w])
      else
        let prev = last current;
            gap = w_start w - w_end prev;
            isNaturalPause = (gap > pauseThreshold);
            isFull = (length current \<ge> maxChunkSize)
        in if isNaturalPause \<or> isFull then
             chunk_loop pauseThreshold maxChunkSize rest
               (chunks @ [mk_chunk current (w_start (hd current)) (w_end prev)]) [w]
           else
             chunk_loop pauseThreshold maxChunkSize rest chunks (current @ [w]))"

definition buildChunks :: "word_rec list \<Rightarrow> style \<Rightarrow> string \<Rightarrow> chunk list" where
  "buildChunks wds st mode =
     (let pauseThreshold = pauseThreshold_of st;
          maxChunkSize = maxChunkSize_of st
      in if mode = ''word'' then
           map (\<lambda>w. mk_chunk [w] (w_start w) (w_end w)) wds
         else
           case chunk_loop pauseThreshold maxChunkSize wds [] [] of
             (chunks, current) \<Rightarrow>
               if length current > 0 then
                 chunks @ [mk_chunk current (w_start (hd current)) (w_end (last current))]
               else chunks)"


section \<open>Loading the word list\<close>

text \<open>
  \<^verbatim>\<open>JSON.parse(fs.readFileSync(wordsPath, 'utf8'))\<close> either throws or yields a JSON value.
  The value is typed: an array is an array of word objects, an object is the wrapper
  with its three optional fields, \<^verbatim>\<open>null\<close> and the other scalars are kept apart because
  reading a property of \<^verbatim>\<open>null\<close> throws while reading one of a number, string or boolean
  yields \<^verbatim>\<open>undefined\<close>.
\<close>

datatype error = ReadError | SyntaxError | TypeError

record words_data =
  language :: "string option"
  language_probability :: "real option"
  wd_words :: "word_rec list option"

datatype raw = Bare "word_rec list" | Wrapper words_data | Null | Scalar

definition loadWords :: "error + raw \<Rightarrow> error + raw" where
  "loadWords parsed =
     (case parsed of
        Inl e \<Rightarrow> Inl e
      | Inr r \<Rightarrow>
          (case r of
             Bare ws \<Rightarrow> Inr (Wrapper \<lparr>language = Some ''en'', language_probability = Some 1,
                                         wd_words = Some ws\<rparr>)
           | _ \<Rightarrow> Inr r))"

text \<open>\<^verbatim>\<open>wordsData.words || []\<close> in \<^verbatim>\<open>main\<close>; an array, even an empty one, is truthy.\<close>

definition words_of :: "raw \<Rightarrow> error + word_rec list" where
  "words_of wordsData =
     (case wordsData of
        Null \<Rightarrow> Inl TypeError
      | Wrapper d \<Rightarrow> (case wd_words d of None \<Rightarrow> Inr [] | Some ws \<Rightarrow> Inr ws)
      | _ \<Rightarrow> Inr [])"

definition language_of :: "raw \<Rightarrow> string option" where
  "language_of wordsData = (case wordsData of Wrapper d \<Rightarrow> language d | _ \<Rightarrow> None)"

text \<open>\<^verbatim>\<open>opts.lang || wordsData.language || 'en'\<close>.\<close>

definition detectedLang :: "string option \<Rightarrow> raw \<Rightarrow> string" where
  "detectedLang opts_lang wordsData = js_or_str opts_lang (js_or_str (language_of wordsData) ''en'')"

section \<open>SVG generation\<close>







text \<open>The highlight test of the karaoke branch, on the frame's optional active window.\<close>

definition isActive :: "word_rec \<Rightarrow> real option \<Rightarrow> real option \<Rightarrow> bool" where
  "isActive wo activeStart' activeEnd' =
     (w_start wo \<le> js_or activeEnd' (w_end wo) \<and> w_end wo \<ge> js_or activeStart' (w_start wo))"











section \<open>Karaoke frames\<close>

text \<open>
  The two nested \<^verbatim>\<open>for ... of\<close> loops of \<^verbatim>\<open>main\<close> push one spread of the chunk per word;
  in the spread the later keys \<^verbatim>\<open>start\<close> and \<^verbatim>\<open>end\<close> replace the chunk's.
\<close>

definition word_frame :: "chunk \<Rightarrow> word_rec \<Rightarrow> chunk" where
  "word_frame chunk wo =
     chunk\<lparr>activeStart := Some (w_start wo), activeEnd := Some (w_end wo),
           c_start := w_start wo, c_end := w_end wo\<rparr>"

definition expandFrames :: "string \<Rightarrow> chunk list \<Rightarrow> chunk list" where
  "expandFrames mode chunks =
     (if mode = ''karaoke'' \<and> length chunks > 0 then
        concat (map (\<lambda>chunk. map (word_frame chunk) (c_words chunk)) chunks)
      else chunks)"

section \<open>The concat file\<close>

text \<open>
  \<^verbatim>\<open>x.toFixed(4)\<close>, read as the number it prints: the multiple of \<open>1/10000\<close> nearest to
  \<open>x\<close>, the larger one on a tie, the sign handled apart (ECMAScript
  \<^verbatim>\<open>Number.prototype.toFixed\<close>; values from \<open>10\<^sup>2\<^sup>1\<close> on print in exponent form and are not
  modelled).
\<close>

definition toFixed4 :: "real \<Rightarrow> real" where
  "toFixed4 x =
     (if x < 0 then - (of_int \<lfloor>(- x) * 10000 + 1 / 2\<rfloor> / 10000)
      else of_int \<lfloor>x * 10000 + 1 / 2\<rfloor> / 10000)"

text \<open>
  A line of the file is \<^verbatim>\<open>file '<path>'\<close> or \<^verbatim>\<open>duration <seconds>\<close>; \<open>Duration d\<close> holds
  the printed number.
\<close>

datatype line = File string | Duration real

record frameFile =
  ff_path :: string
  ff_start :: real
  ff_end :: real

fun is_File :: "line \<Rightarrow> bool" where
  "is_File (File p) = True"
| "is_File (Duration d) = False"

text \<open>The \<^verbatim>\<open>for (const f of frameFiles)\<close> loop, with \<^verbatim>\<open>lines\<close> and \<^verbatim>\<open>cursor\<close> as state.\<close>

fun concat_loop :: "string \<Rightarrow> frameFile list \<Rightarrow> line list \<Rightarrow> real \<Rightarrow> line list \<times> real" where
  "concat_loop blankPath [] lines cursor = (lines, cursor)"
| "concat_loop blankPath (f # rest) lines cursor =
     (let gapBefore = ff_start f - cursor;
          lines1 = (if gapBefore > 0.01
                    then lines @ [File blankPath, Duration (toFixed4 gapBefore)] else lines);
          duration = max (ff_end f - ff_start f) 0.033;
          lines2 = lines1 @ [File (ff_path f), Duration (toFixed4 duration)]
      in concat_loop blankPath rest lines2 (ff_end f))"

text \<open>
  \<^verbatim>\<open>buildConcatFile\<close> up to the final \<^verbatim>\<open>lines.join('\n') + '\n'\<close>: the value is the list of
  lines. \<^verbatim>\<open>lines.filter(l => l.startsWith('file ')).pop()\<close> is \<^verbatim>\<open>undefined\<close> on an empty
  list.
\<close>

definition buildConcatFile :: "frameFile list \<Rightarrow> string \<Rightarrow> real \<Rightarrow> line list" where
  "buildConcatFile frameFiles blankPath audioDuration =
     (case concat_loop blankPath frameFiles [] 0 of
        (lines, cursor) \<Rightarrow>
          let lines1 = (if cursor < audioDuration - 0.01
                        then lines @ [File blankPath, Duration (toFixed4 (audioDuration - cursor))]
                        else lines)
          in (case filter is_File lines1 of
                [] \<Rightarrow> lines1 @ [File blankPath, Duration (toFixed4 audioDuration), File blankPath]
              | fl # fls \<Rightarrow> lines1 @ [last (fl # fls)]))"

text \<open>
  The timeline the file describes: every \<^verbatim>\<open>file\<close> line followed by a \<^verbatim>\<open>duration\<close> line is
  one entry; the trailing \<^verbatim>\<open>file\<close> line carries no duration.
\<close>

fun entries :: "line list \<Rightarrow> (string \<times> real) list" where
  "entries (File p # Duration d # rest) = (p, d) # entries rest"
| "entries (l # rest) = entries rest"
| "entries [] = []"

section \<open>The run\<close>

text \<open>
  The part of \<^verbatim>\<open>main\<close> between loading the words and writing the concat file. The
  outcome of \<^verbatim>\<open>ffprobe\<close> (\<^verbatim>\<open>getAudioDuration\<close>, which resolves to \<open>0\<close> when the duration
  cannot be read) and the paths of the rendered images are parameters; rendering and
  encoding are outside the model.
\<close>

definition fps_of :: "style \<Rightarrow> real" where
  "fps_of st = js_or (video_fps st) 30"

definition frameFiles_of :: "(nat \<Rightarrow> string) \<Rightarrow> chunk list \<Rightarrow> frameFile list" where
  "frameFiles_of pngPath frames =
     map (\<lambda>(i, frame). \<lparr>ff_path = pngPath i, ff_start = c_start frame, ff_end = c_end frame\<rparr>)
         (enumerate 0 frames)"

definition main_lines ::
  "(nat \<Rightarrow> string) \<Rightarrow> string \<Rightarrow> string \<Rightarrow> style \<Rightarrow> real \<Rightarrow> error + raw \<Rightarrow> error + line list" where
  "main_lines pngPath blankPath mode styleRaw probed parsed =
     (case loadWords parsed of
        Inl e \<Rightarrow> Inl e
      | Inr wordsData \<Rightarrow>
          (case words_of wordsData of
             Inl e \<Rightarrow> Inl e
           | Inr wds \<Rightarrow>
               let chunks = (if length wds > 0 then buildChunks wds styleRaw mode else []);
                   frames = expandFrames mode chunks;
                   audioDuration = (if probed = 0 \<and> length wds > 0 then w_end (last wds) else probed);
                   frameFiles = frameFiles_of pngPath frames
               in Inr (buildConcatFile frameFiles blankPath audioDuration)))"

section \<open>Notions used in the statements\<close>

subsection \<open>Display units\<close>

definition unit_ok :: "chunk \<Rightarrow> bool" where
  "unit_ok c = (c_words c \<noteq> [] \<and> c_start c = w_start (hd (c_words c))
                \<and> c_end c = w_end (last (c_words c)))"

text \<open>Two neighbouring words of one unit: the second did not come after a pause.\<close>

definition no_pause :: "real \<Rightarrow> word_rec \<Rightarrow> word_rec \<Rightarrow> bool" where
  "no_pause pT a b = (w_start b - w_end a \<le> pT)"

text \<open>Two neighbouring units: the first was closed by a pause or because it was full.\<close>

definition split_ok :: "real \<Rightarrow> nat \<Rightarrow> word_rec list \<Rightarrow> word_rec list \<Rightarrow> bool" where
  "split_ok pT mS g h = (w_start (hd h) - w_end (last g) > pT \<or> length g \<ge> mS)"

definition open_groups :: "chunk list \<Rightarrow> word_rec list \<Rightarrow> word_rec list list" where
  "open_groups chunks current = map c_words chunks @ (if current = [] then [] else [current])"

text \<open>The invariant of the grouping loop over its state \<open>(chunks, current)\<close>.\<close>

definition loop_inv :: "real \<Rightarrow> nat \<Rightarrow> chunk list \<Rightarrow> word_rec list \<Rightarrow> bool" where
  "loop_inv pT mS chunks current =
     ((\<forall>c \<in> set chunks. unit_ok c \<and> length (c_words c) \<le> mS
                          \<and> successively (no_pause pT) (c_words c))
      \<and> length current \<le> mS \<and> successively (no_pause pT) current
      \<and> (current = [] \<longrightarrow> chunks = [])
      \<and> successively (split_ok pT mS) (open_groups chunks current))"

text \<open>The flush after the loop, as \<^verbatim>\<open>buildChunks\<close> does it.\<close>

definition flush :: "chunk list \<times> word_rec list \<Rightarrow> chunk list" where
  "flush r = (case r of (chunks, current) \<Rightarrow>
      if length current > 0 then
        chunks @ [mk_chunk current (w_start (hd current)) (w_end (last current))]
      else chunks)"

subsection \<open>Timeline entries\<close>








subsection \<open>Active windows\<close>

text \<open>
  The closed intervals \<open>[start, end]\<close> of a word and \<open>[s, e]\<close> of an active window have a
  point in common.
\<close>

definition windows_intersect :: "word_rec \<Rightarrow> real \<Rightarrow> real \<Rightarrow> bool" where
  "windows_intersect wo s e = (w_start wo \<le> e \<and> s \<le> w_end wo)"

text \<open>Words in time order: none ends before it starts, each ends before later ones start.\<close>

definition words_in_order :: "word_rec list \<Rightarrow> bool" where
  "words_in_order ws = (list_all (\<lambda>w. w_start w \<le> w_end w) ws
                        \<and> sorted_wrt (\<lambda>a b. w_end a \<le> w_start b) ws)"

subsection \<open>Markup characters\<close>


subsection \<open>Concrete inputs\<close>

text \<open>The three words of the end-to-end scenario.\<close>

definition ex_words :: "word_rec list" where
  "ex_words = [\<lparr>w_word = ''hello'', w_start = 0, w_end = 0.4\<rparr>,
               \<lparr>w_word = ''world'', w_start = 0.5, w_end = 0.9\<rparr>,
               \<lparr>w_word = ''today'', w_start = 2, w_end = 2.5\<rparr>]"




text \<open>The unit of the karaoke highlight test.\<close>

definition ex_unit :: chunk where
  "ex_unit = mk_chunk [\<lparr>w_word = ''this'', w_start = 0, w_end = 0.4\<rparr>,
                       \<lparr>w_word = ''is'', w_start = 0.5, w_end = 0.9\<rparr>] 0 0.9"

text \<open>A word of zero length at time \<open>0\<close>, followed by an ordinary word.\<close>

definition ex_zero :: "word_rec list" where
  "ex_zero = [\<lparr>w_word = ''a'', w_start = 0, w_end = 0\<rparr>,
              \<lparr>w_word = ''b'', w_start = 0.25, w_end = 0.5\<rparr>]"


section \<open>Properties of the chunk grouping\<close>

lemma unit_ok_mk: "g \<noteq> [] \<Longrightarrow> unit_ok (mk_chunk g (w_start (hd g)) (w_end (last g)))"
  by (simp add: unit_ok_def mk_chunk_def)

lemma c_words_mk [simp]: "c_words (mk_chunk g s e) = g"
  by (simp add: mk_chunk_def)

lemma maxChunkSize_of_pos: "1 \<le> maxChunkSize_of st"
  by (simp add: maxChunkSize_of_def js_or_nat_def split: option.splits)

lemma loop_inv_init: "loop_inv pT mS [] []"
  by (simp add: loop_inv_def open_groups_def)

lemma loop_inv_first: "1 \<le> mS \<Longrightarrow> loop_inv pT mS [] [w]"
  by (simp add: loop_inv_def open_groups_def)

lemma loop_inv_append:
  assumes "loop_inv pT mS chunks current" "current \<noteq> []"
    "\<not> (w_start w - w_end (last current) > pT)" "\<not> (length current \<ge> mS)"
  shows "loop_inv pT mS chunks (current @ [w])"
  using assms
  by (auto simp: loop_inv_def open_groups_def successively_append_iff no_pause_def split_ok_def)

lemma loop_inv_close:
  assumes "loop_inv pT mS chunks current" "current \<noteq> []" "1 \<le> mS"
    "w_start w - w_end (last current) > pT \<or> length current \<ge> mS"
  shows "loop_inv pT mS (chunks @ [mk_chunk current (w_start (hd current)) (w_end (last current))]) [w]"
  using assms
  by (auto simp: loop_inv_def open_groups_def successively_append_iff no_pause_def split_ok_def
        unit_ok_mk)

text \<open>Every pass of the loop keeps the invariant, so the state after the last word has it.\<close>

lemma chunk_loop_inv:
  "1 \<le> mS \<Longrightarrow> loop_inv pT mS chunks current \<Longrightarrow>
   loop_inv pT mS (fst (chunk_loop pT mS ws chunks current))
                  (snd (chunk_loop pT mS ws chunks current))"
proof (induction ws arbitrary: chunks current)
  case Nil
  then show ?case by simp
next
  case (Cons w ws)
  show ?case
  proof (cases "current = []")
    case True
    with Cons.prems have "chunks = []" by (simp add: loop_inv_def)
    with True Cons.prems Cons.IH[of "[]" "[w]"] show ?thesis
      by (simp add: loop_inv_first)
  next
    case False
    show ?thesis
    proof (cases "w_start w - w_end (last current) > pT \<or> length current \<ge> mS")
      case True
      from loop_inv_close[OF Cons.prems(2) False Cons.prems(1) True]
      have "loop_inv pT mS
              (chunks @ [mk_chunk current (w_start (hd current)) (w_end (last current))]) [w]" .
      from Cons.IH[OF Cons.prems(1) this] False True show ?thesis
        by (simp add: Let_def)
    next
      case stay: False
      then have "loop_inv pT mS chunks (current @ [w])"
        using loop_inv_append[OF Cons.prems(2) False] by simp
      from Cons.IH[OF Cons.prems(1) this] False stay show ?thesis
        by (simp add: Let_def)
    qed
  qed
qed

text \<open>No word is lost or repeated: closed units, open unit and unread words make the input.\<close>

lemma chunk_loop_concat:
  "concat (map c_words (fst (chunk_loop pT mS ws chunks current)))
     @ snd (chunk_loop pT mS ws chunks current)
   = concat (map c_words chunks) @ current @ ws"
  by (induction ws arbitrary: chunks current) (simp_all add: Let_def)

lemma buildChunks_grouped:
  "mode \<noteq> ''word'' \<Longrightarrow>
   buildChunks wds st mode
     = flush (chunk_loop (pauseThreshold_of st) (maxChunkSize_of st) wds [] [])"
  by (simp add: buildChunks_def flush_def Let_def)

lemma flush_concat: "concat (map c_words (flush r)) = concat (map c_words (fst r)) @ snd r"
  by (cases r) (simp add: flush_def)

lemma flush_inv:
  assumes "loop_inv pT mS (fst r) (snd r)"
  shows "(\<forall>c \<in> set (flush r). unit_ok c \<and> length (c_words c) \<le> mS
                                 \<and> successively (no_pause pT) (c_words c))
         \<and> successively (split_ok pT mS) (map c_words (flush r))"
  using assms
  by (cases r) (auto simp: flush_def loop_inv_def open_groups_def unit_ok_mk)

lemma grouped_concat:
  "concat (map c_words (flush (chunk_loop pT mS wds [] []))) = wds"
  using chunk_loop_concat[of pT mS wds "[]" "[]"] by (simp add: flush_concat)

lemma grouped_inv:
  assumes "1 \<le> mS"
  shows "(\<forall>c \<in> set (flush (chunk_loop pT mS wds [] [])).
            unit_ok c \<and> length (c_words c) \<le> mS \<and> successively (no_pause pT) (c_words c))
         \<and> successively (split_ok pT mS) (map c_words (flush (chunk_loop pT mS wds [] [])))"
  by (rule flush_inv) (rule chunk_loop_inv[OF assms loop_inv_init])



lemma ex_words_chunks:
  "buildChunks ex_words emptyStyle ''chunk''
     = [mk_chunk (take 2 ex_words) 0 0.9, mk_chunk (drop 2 ex_words) 2 2.5]"
  by (simp add: buildChunks_def ex_words_def emptyStyle_def pauseThreshold_of_def
        maxChunkSize_of_def js_or_def js_or_nat_def Let_def)


text \<open>
  C9. In every mode the units returned by \<^verbatim>\<open>buildChunks\<close> partition the input: their word
  lists, concatenated in order, are the input sequence; no unit is empty; a unit's
  \<^verbatim>\<open>start\<close> is its first word's start and its \<^verbatim>\<open>end\<close> its last word's end.
\<close>

theorem buildChunks_partition:
  "concat (map c_words (buildChunks wds st mode)) = wds \<and>
   (\<forall>c \<in> set (buildChunks wds st mode).
      c_words c \<noteq> [] \<and> c_start c = w_start (hd (c_words c))
      \<and> c_end c = w_end (last (c_words c)))"
proof (cases "mode = ''word''")
  case True
  then show ?thesis
    by (auto simp: buildChunks_def mk_chunk_def comp_def)
next
  case False
  have "\<forall>c \<in> set (buildChunks wds st mode). unit_ok c"
    using grouped_inv[OF maxChunkSize_of_pos, where pT = "pauseThreshold_of st" and wds = wds
        and st1 = st]
    by (simp add: buildChunks_grouped[OF False])
  then show ?thesis
    by (simp add: buildChunks_grouped[OF False] grouped_concat unit_ok_def)
qed

theorem buildChunks_partition_witness:
  "buildChunks ex_words emptyStyle ''chunk''
     = [mk_chunk (take 2 ex_words) 0 0.9, mk_chunk (drop 2 ex_words) 2 2.5] \<and>
   concat (map c_words (buildChunks ex_words emptyStyle ''chunk'')) = ex_words \<and>
   list_all (\<lambda>c. c_words c \<noteq> [] \<and> c_start c = w_start (hd (c_words c))
                  \<and> c_end c = w_end (last (c_words c)))
     (buildChunks ex_words emptyStyle ''chunk'')"
  using buildChunks_partition[of ex_words emptyStyle "''chunk''"] ex_words_chunks
  by (simp add: list_all_iff)



section \<open>Properties of the concat file\<close>

text \<open>The printed number is within half a unit of the fourth decimal of the value printed.\<close>

lemma toFixed4_near: "\<bar>toFixed4 x - x\<bar> \<le> 1 / 20000"
proof -
  have a: "\<bar>of_int \<lfloor>y * 10000 + 1 / 2\<rfloor> / 10000 - y\<bar> \<le> 1 / 20000" for y :: real
  proof -
    define k :: real where "k = of_int \<lfloor>y * 10000 + 1 / 2\<rfloor>"
    have "k \<le> y * 10000 + 1 / 2"
      unfolding k_def by (rule of_int_floor_le)
    moreover have "y * 10000 + 1 / 2 < k + 1"
      unfolding k_def by linarith
    ultimately have "\<bar>k / 10000 - y\<bar> \<le> 1 / 20000"
      by linarith
    then show ?thesis by (simp add: k_def)
  qed
  show ?thesis
  proof (cases "x < 0")
    case True
    have "\<bar>- (of_int \<lfloor>(- x) * 10000 + 1 / 2\<rfloor> / 10000) - x\<bar> \<le> 1 / 20000"
      using a[of "- x"] by linarith
    with True show ?thesis by (simp only: toFixed4_def if_True)
  next
    case False
    with a[of x] show ?thesis by (simp only: toFixed4_def if_False)
  qed
qed














text \<open>
  C6. The content entry's floor is the constant \<open>0.033\<close>, whatever the frame rate: for a
  frame of zero length the file says \<^verbatim>\<open>duration 0.0330\<close>, which is less than one frame
  period both at the default \<open>30\<close> frames per second and at a configured \<open>24\<close>.
\<close>

theorem minimum_duration_below_frame_period:
  "buildConcatFile [\<lparr>ff_path = ''f0'', ff_start = 1, ff_end = 1\<rparr>] ''blank'' 1
     = [File ''blank'', Duration 1, File ''f0'', Duration 0.033, File ''f0''] \<and>
   fps_of emptyStyle = 30 \<and> (0.033 :: real) < 1 / fps_of emptyStyle \<and>
   fps_of (emptyStyle\<lparr>video_fps := Some 24\<rparr>) = 24 \<and>
   (0.033 :: real) < 1 / fps_of (emptyStyle\<lparr>video_fps := Some 24\<rparr>)"
  by (simp add: buildConcatFile_def toFixed4_def Let_def fps_of_def js_or_def emptyStyle_def)

text \<open>
  C7. When the loaded document has no words, the run goes on to the concat file, which is
  one entry for the blank image, of the probed duration as \<^verbatim>\<open>toFixed(4)\<close> prints it (within
  \<open>0.00005\<close> of it, and \<open>0\<close> when the duration could not be read), followed by the
  trailing \<^verbatim>\<open>file\<close> line.
\<close>

theorem empty_words_single_filler:
  assumes "loadWords parsed = Inr wordsData" and "words_of wordsData = Inr []"
  shows "main_lines pngPath blankPath mode styleRaw probed parsed
           = Inr [File blankPath, Duration (toFixed4 probed), File blankPath] \<and>
         entries [File blankPath, Duration (toFixed4 probed), File blankPath]
           = [(blankPath, toFixed4 probed)] \<and>
         \<bar>toFixed4 probed - probed\<bar> \<le> 1 / 20000 \<and> toFixed4 0 = 0"
proof -
  have "expandFrames mode [] = []" by (simp add: expandFrames_def)
  then have "main_lines pngPath blankPath mode styleRaw probed parsed = Inr (buildConcatFile [] blankPath probed)"
    using assms by (simp add: main_lines_def frameFiles_of_def)
  moreover have "buildConcatFile [] blankPath probed = [File blankPath, Duration (toFixed4 probed), File blankPath]"
    by (simp add: buildConcatFile_def Let_def)
  moreover have "toFixed4 0 = 0" by (simp add: toFixed4_def)
  moreover note toFixed4_near[of probed]
  ultimately show ?thesis by simp
qed

theorem empty_words_single_filler_witness:
  "loadWords (Inr (Bare [])) = Inr (Wrapper \<lparr>language = Some ''en'', language_probability = Some 1, wd_words = Some []\<rparr>) \<and>
   main_lines (\<lambda>i. ''f'') ''blank'' ''chunk'' emptyStyle 2.5 (Inr (Bare []))
     = Inr [File ''blank'', Duration 2.5, File ''blank'']"
proof -
  have a: "loadWords (Inr (Bare [])) = Inr (Wrapper \<lparr>language = Some ''en'', language_probability = Some 1, wd_words = Some []\<rparr>)"
    by (simp add: loadWords_def)
  have b: "words_of (Wrapper \<lparr>language = Some ''en'', language_probability = Some 1, wd_words = Some []\<rparr>) = Inr []"
    by (simp add: words_of_def)
  have c: "toFixed4 2.5 = 2.5" by (simp add: toFixed4_def)
  from empty_words_single_filler[OF a b, of "\<lambda>i. ''f''" "''blank''" "''chunk''" emptyStyle "2.5"] a c
  show ?thesis by simp
qed

section \<open>Properties of the karaoke frames\<close>

lemma expandFrames_karaoke:
  "expandFrames ''karaoke'' chunks = concat (map (\<lambda>chunk. map (word_frame chunk) (c_words chunk)) chunks)"
  by (cases chunks) (simp_all add: expandFrames_def)

lemma length_concat_words: "length (concat (map c_words cs)) = sum_list (map (length \<circ> c_words) cs)"
  by (induction cs) simp_all

text \<open>
  C5. Karaoke expansion makes one frame per word of each unit, in word order: the number
  of frames is the number of words, the active windows are the words' own times one after
  the other, and every frame carries its unit's whole word list; run on the units of
  \<^verbatim>\<open>buildChunks\<close> it makes as many frames as the input has words. In every other mode the
  frames are the units themselves.
\<close>

theorem expandFrames_counts:
  "length (expandFrames ''karaoke'' chunks) = sum_list (map (length \<circ> c_words) chunks) \<and>
   map (\<lambda>f. (activeStart f, activeEnd f)) (expandFrames ''karaoke'' chunks)
     = map (\<lambda>w. (Some (w_start w), Some (w_end w))) (concat (map c_words chunks)) \<and>
   map c_words (expandFrames ''karaoke'' chunks)
     = concat (map (\<lambda>c. replicate (length (c_words c)) (c_words c)) chunks) \<and>
   length (expandFrames ''karaoke'' (buildChunks wds st ''karaoke'')) = length wds \<and>
   (mode \<noteq> ''karaoke'' \<longrightarrow> expandFrames mode chunks = chunks)"
proof -
  have a: "length (expandFrames ''karaoke'' cs) = sum_list (map (length \<circ> c_words) cs)" for cs
    unfolding expandFrames_karaoke by (induction cs) simp_all
  have b: "map (\<lambda>f. (activeStart f, activeEnd f)) (expandFrames ''karaoke'' chunks)
     = map (\<lambda>w. (Some (w_start w), Some (w_end w))) (concat (map c_words chunks))"
    unfolding expandFrames_karaoke by (induction chunks) (simp_all add: word_frame_def comp_def)
  have c: "map c_words (expandFrames ''karaoke'' chunks)
     = concat (map (\<lambda>c. replicate (length (c_words c)) (c_words c)) chunks)"
    unfolding expandFrames_karaoke
    by (induction chunks) (simp_all add: word_frame_def comp_def map_replicate_const)
  have k: "''karaoke'' \<noteq> ''word''" by simp
  have "length (expandFrames ''karaoke'' (buildChunks wds st ''karaoke''))
          = length (concat (map c_words (buildChunks wds st ''karaoke'')))"
    by (simp only: a length_concat_words)
  also have "\<dots> = length wds"
    by (simp only: buildChunks_grouped[OF k] grouped_concat)
  finally have d: "length (expandFrames ''karaoke'' (buildChunks wds st ''karaoke'')) = length wds" .
  have e: "mode \<noteq> ''karaoke'' \<longrightarrow> expandFrames mode chunks = chunks"
    by (simp add: expandFrames_def)
  from a[of chunks] b c d e show ?thesis by blast
qed

theorem expandFrames_counts_witness:
  "''chunk'' \<noteq> ''karaoke'' \<and>
   expandFrames ''chunk'' [ex_unit] = [ex_unit] \<and>
   length (expandFrames ''karaoke'' [ex_unit]) = 2 \<and>
   map (\<lambda>f. (activeStart f, activeEnd f)) (expandFrames ''karaoke'' [ex_unit])
     = [(Some 0, Some 0.4), (Some 0.5, Some 0.9)]"
  using expandFrames_counts[of "[ex_unit]" ex_words emptyStyle "''chunk''"]
  by (simp add: ex_unit_def)

lemma in_order_first:
  assumes "words_in_order ws" "i < length ws"
  shows "w_start (hd ws) \<le> w_start (ws ! i)"
proof (cases i)
  case 0
  with assms(2) show ?thesis by (cases ws) simp_all
next
  case (Suc j)
  from assms(2) have ne: "ws \<noteq> []" by auto
  have "w_end (ws ! 0) \<le> w_start (ws ! i)"
    using assms Suc by (simp add: words_in_order_def sorted_wrt_iff_nth_less)
  moreover have "w_start (ws ! 0) \<le> w_end (ws ! 0)"
    using assms ne by (simp add: words_in_order_def list_all_length)
  ultimately show ?thesis using ne by (simp add: hd_conv_nth)
qed

lemma in_order_last:
  assumes "words_in_order ws" "i < length ws"
  shows "w_end (ws ! i) \<le> w_end (last ws)"
proof -
  from assms(2) have ne: "ws \<noteq> []" by auto
  note l = last_conv_nth[OF ne]
  show ?thesis
  proof (cases "i = length ws - 1")
    case True
    then show ?thesis by (simp add: l)
  next
    case False
    with assms(2) have lt: "i < length ws - 1" "length ws - 1 < length ws" by simp_all
    then have "w_end (ws ! i) \<le> w_start (ws ! (length ws - 1))"
      using assms(1) by (simp add: words_in_order_def sorted_wrt_iff_nth_less)
    moreover have "w_start (ws ! (length ws - 1)) \<le> w_end (ws ! (length ws - 1))"
      using assms(1) lt(2) by (simp add: words_in_order_def list_all_length)
    ultimately show ?thesis by (simp add: l)
  qed
qed

lemma in_order_bounds:
  assumes "words_in_order ws" "wo \<in> set ws"
  shows "w_start (hd ws) \<le> w_start wo \<and> w_start wo \<le> w_end wo \<and> w_end wo \<le> w_end (last ws)"
proof -
  from assms(2) obtain i where i: "i < length ws" "ws ! i = wo"
    by (auto simp: in_set_conv_nth)
  from assms have "w_start wo \<le> w_end wo"
    by (simp add: words_in_order_def list_all_iff)
  with in_order_first[OF assms(1) i(1)] in_order_last[OF assms(1) i(1)] i(2)
  show ?thesis by simp
qed

text \<open>
  C4, as the code has it. Every karaoke frame comes from one unit and one word of it: it
  keeps the unit's word list, while its \<^verbatim>\<open>start\<close> and \<^verbatim>\<open>end\<close> are overwritten with that
  word's, which are also its \<^verbatim>\<open>activeStart\<close> and \<^verbatim>\<open>activeEnd\<close>. When the unit's words are in
  time order, the window is not inverted and lies within the unit's \<^verbatim>\<open>start\<close> and \<^verbatim>\<open>end\<close>.
\<close>

theorem karaoke_frame_window:
  assumes "f \<in> set (expandFrames ''karaoke'' chunks)"
  shows "\<exists>c \<in> set chunks. \<exists>wo \<in> set (c_words c).
           c_words f = c_words c \<and> c_start f = w_start wo \<and> c_end f = w_end wo \<and>
           activeStart f = Some (w_start wo) \<and> activeEnd f = Some (w_end wo) \<and>
           (unit_ok c \<and> words_in_order (c_words c) \<longrightarrow>
              c_start c \<le> w_start wo \<and> w_start wo \<le> w_end wo \<and> w_end wo \<le> c_end c)"
proof -
  from assms obtain c wo where c: "c \<in> set chunks" and wo: "wo \<in> set (c_words c)"
    and f: "f = word_frame c wo"
    by (auto simp: expandFrames_karaoke)
  have w: "unit_ok c \<and> words_in_order (c_words c) \<longrightarrow>
      c_start c \<le> w_start wo \<and> w_start wo \<le> w_end wo \<and> w_end wo \<le> c_end c"
    using in_order_bounds[of "c_words c" wo] wo by (simp add: unit_ok_def)
  have "c_words f = c_words c \<and> c_start f = w_start wo \<and> c_end f = w_end wo \<and>
        activeStart f = Some (w_start wo) \<and> activeEnd f = Some (w_end wo)"
    by (simp add: f word_frame_def)
  with c wo w show ?thesis by blast
qed

theorem karaoke_frame_window_witness:
  "ex_unit\<lparr>activeStart := Some 0.5, activeEnd := Some 0.9, c_start := 0.5, c_end := 0.9\<rparr>
     \<in> set (expandFrames ''karaoke'' [ex_unit]) \<and>
   unit_ok ex_unit \<and> words_in_order (c_words ex_unit) \<and>
   c_start ex_unit \<le> 0.5 \<and> (0.9 :: real) \<le> c_end ex_unit \<and>
   (\<exists>c \<in> set [ex_unit]. \<exists>wo \<in> set (c_words c).
      c_start (ex_unit\<lparr>activeStart := Some 0.5, activeEnd := Some 0.9, c_start := 0.5, c_end := 0.9\<rparr>)
        = w_start wo \<and> c_start c \<le> w_start wo \<and> w_end wo \<le> c_end c)"
proof -
  let ?f = "ex_unit\<lparr>activeStart := Some 0.5, activeEnd := Some 0.9, c_start := 0.5, c_end := 0.9\<rparr>"
  have m: "?f \<in> set (expandFrames ''karaoke'' [ex_unit])"
    by (simp add: expandFrames_def ex_unit_def word_frame_def mk_chunk_def)
  have u: "unit_ok ex_unit" by (simp add: ex_unit_def unit_ok_def mk_chunk_def)
  have o: "words_in_order (c_words ex_unit)" by (simp add: ex_unit_def words_in_order_def)
  have b: "c_start ex_unit \<le> 0.5" "(0.9 :: real) \<le> c_end ex_unit"
    by (simp_all add: ex_unit_def mk_chunk_def)
  from karaoke_frame_window[OF m] u o
  have "\<exists>c \<in> set [ex_unit]. \<exists>wo \<in> set (c_words c).
      c_start ?f = w_start wo \<and> c_start c \<le> w_start wo \<and> w_end wo \<le> c_end c"
    by auto
  with m u o b show ?thesis by blast
qed

text \<open>
  The frame's \<^verbatim>\<open>start\<close> and \<^verbatim>\<open>end\<close> are not the unit's: of the two frames of \<open>ex_unit\<close> the
  second starts at \<open>0.5\<close>, not at the first word's \<open>0\<close>, and the first ends at \<open>0.4\<close>, not
  at the last word's \<open>0.9\<close>.
\<close>

theorem karaoke_frame_start_counterexample:
  "unit_ok ex_unit \<and> w_start (hd (c_words ex_unit)) = 0 \<and> w_end (last (c_words ex_unit)) = 0.9 \<and>
   c_start (expandFrames ''karaoke'' [ex_unit] ! 1) = 0.5 \<and>
   c_start (expandFrames ''karaoke'' [ex_unit] ! 1) \<noteq> w_start (hd (c_words ex_unit)) \<and>
   c_end (expandFrames ''karaoke'' [ex_unit] ! 0) = 0.4 \<and>
   c_end (expandFrames ''karaoke'' [ex_unit] ! 0) \<noteq> w_end (last (c_words ex_unit))"
  by (simp add: expandFrames_def ex_unit_def word_frame_def mk_chunk_def unit_ok_def)

section \<open>Properties of the highlight test\<close>

text \<open>Away from \<open>0\<close> the test is the intersection of the two closed intervals.\<close>

lemma isActive_nonzero:
  "s \<noteq> 0 \<Longrightarrow> e \<noteq> 0 \<Longrightarrow> isActive wo (Some s) (Some e) = windows_intersect wo s e"
  by (simp add: isActive_def windows_intersect_def js_or_def)

text \<open>The karaoke highlight test of the specification.\<close>

lemma isActive_spec_example:
  "\<not> isActive \<lparr>w_word = ''this'', w_start = 0, w_end = 0.4\<rparr> (Some 0.5) (Some 0.9) \<and>
   isActive \<lparr>w_word = ''is'', w_start = 0.5, w_end = 0.9\<rparr> (Some 0.5) (Some 0.9)"
  by (simp add: isActive_def js_or_def)

text \<open>
  C3. The fallbacks \<^verbatim>\<open>activeEnd || wo.end\<close> and \<^verbatim>\<open>activeStart || wo.start\<close> also fire on a
  bound that is \<open>0\<close>. The first karaoke frame of \<open>ex_zero\<close> has the active window
  \<open>[0, 0]\<close>; the second word, \<open>[0.25, 0.5]\<close>, does not meet it and is classified active
  all the same.
\<close>

theorem isActive_zero_window:
  "expandFrames ''karaoke'' (buildChunks ex_zero emptyStyle ''karaoke'') ! 0
     = \<lparr>c_words = ex_zero, c_start = 0, c_end = 0, activeStart = Some 0, activeEnd = Some 0\<rparr> \<and>
   isActive (ex_zero ! 1) (Some 0) (Some 0) \<and>
   \<not> windows_intersect (ex_zero ! 1) 0 0"
  by (simp add: expandFrames_def buildChunks_def ex_zero_def emptyStyle_def pauseThreshold_of_def
        maxChunkSize_of_def js_or_def js_or_nat_def Let_def word_frame_def mk_chunk_def
        isActive_def windows_intersect_def)

section \<open>Properties of the word loader\<close>

text \<open>
  C8, as the code has it. A bare word list comes back wrapped, with the language \<^verbatim>\<open>en\<close>
  and probability \<open>1\<close>; a wrapper comes back as it is, also where it has no language,
  and the fallback \<^verbatim>\<open>en\<close> is then applied where \<^verbatim>\<open>main\<close> reads the language (with no
  \<^verbatim>\<open>--lang\<close> option); \<^verbatim>\<open>loadWords\<close> fails exactly when reading or parsing failed, with that
  error.
\<close>

theorem loadWords_contract:
  "loadWords (Inr (Bare ws))
     = Inr (Wrapper \<lparr>language = Some ''en'', language_probability = Some 1, wd_words = Some ws\<rparr>) \<and>
   loadWords (Inr (Wrapper d)) = Inr (Wrapper d) \<and>
   detectedLang None (Wrapper (d\<lparr>language := None\<rparr>)) = ''en'' \<and>
   ((\<exists>e. loadWords parsed = Inl e) \<longleftrightarrow> (\<exists>e. parsed = Inl e)) \<and>
   loadWords (Inl err) = Inl err"
  by (auto simp: loadWords_def detectedLang_def language_of_def js_or_str_def
        split: sum.splits raw.splits)

text \<open>
  The document \<^verbatim>\<open>{"words": []}\<close> is a wrapper without a language; what \<^verbatim>\<open>loadWords\<close> returns
  for it has no language either.
\<close>

theorem loadWords_language_counterexample:
  "loadWords (Inr (Wrapper \<lparr>language = None, language_probability = None, wd_words = Some []\<rparr>))
     = Inr (Wrapper \<lparr>language = None, language_probability = None, wd_words = Some []\<rparr>) \<and>
   language_of (Wrapper \<lparr>language = None, language_probability = None, wd_words = Some []\<rparr>)
     \<noteq> Some ''en''"
  by (simp add: loadWords_def language_of_def)

section \<open>Properties of the SVG generation\<close>






















end
